theory Spec2Isabelle
  imports Main
begin

section \<open>The Dynamips ATM switch node (\<^verbatim>\<open>atm_switch.py\<close>)\<close>

text \<open>
  A shallow embedding of class \<^verbatim>\<open>ATMSwitch\<close>. The object's fields, the hypervisor
  channel it talks to and the NIO objects bound to its ports are one explicit state that
  every method takes and returns. An exception is the left summand of the result; the
  state returned with it is the state at the moment of the raise. \<^verbatim>\<open>log.info\<close> calls
  have no effect on that state and are left out.
\<close>

subsection \<open>Python strings\<close>

text \<open>
  A \<^typ>\<open>char\<close> is read as a code point below 256. \<^verbatim>\<open>str.lower\<close> changes exactly the
  code points 65 to 90 and 192 to 222 except 215 in that range, each by adding 32.
\<close>

definition lower_char :: "char \<Rightarrow> char" where
  "lower_char c =
     (let n = (of_char c :: nat)
      in if (65 \<le> n \<and> n \<le> 90) \<or> (192 \<le> n \<and> n \<le> 222 \<and> n \<noteq> 215)
         then char_of (n + 32) else c)"

definition lower :: "string \<Rightarrow> string" where
  "lower s = map lower_char s"

text \<open>\<^verbatim>\<open>s.startswith(p)\<close>\<close>

fun startswith :: "string \<Rightarrow> string \<Rightarrow> bool" where
  "startswith s [] = True"
| "startswith [] (p # ps) = False"
| "startswith (c # cs) (p # ps) = (c = p \<and> startswith cs ps)"

text \<open>\<^verbatim>\<open>sub in s\<close> on strings: some suffix of \<open>s\<close> starts with \<open>sub\<close>.\<close>

fun contains :: "string \<Rightarrow> string \<Rightarrow> bool" where
  "contains [] sub = startswith [] sub"
| "contains (c # cs) sub = (startswith (c # cs) sub \<or> contains cs sub)"

text \<open>\<^verbatim>\<open>"{}".format(n)\<close> for a Python int: decimal digits, a minus sign when negative.\<close>

definition digit_char :: "nat \<Rightarrow> char" where
  "digit_char d = ''0123456789'' ! d"

fun str_nat :: "nat \<Rightarrow> string" where
  "str_nat n = (if n < 10 then [digit_char n] else str_nat (n div 10) @ [digit_char (n mod 10)])"

declare str_nat.simps [simp del]

definition str_int :: "int \<Rightarrow> string" where
  "str_int i = (if i < 0 then CHR ''-'' # str_nat (nat (- i)) else str_nat (nat i))"

subsection \<open>Data\<close>

text \<open>
  The keys and values of \<^verbatim>\<open>_mapping\<close> are Python tuples: pairs \<^verbatim>\<open>(port, vpi)\<close> written
  by \<^verbatim>\<open>map_vp\<close> and triples \<^verbatim>\<open>(port, vpi, vci)\<close> written by \<^verbatim>\<open>map_pvc\<close>. A pair is
  never equal to a triple.
\<close>

datatype circuit = VP int int | VC int int int

text \<open>
  \<^verbatim>\<open>DynamipsError\<close> carries its message; \<^verbatim>\<open>KeyError\<close> is what \<^verbatim>\<open>del d[k]\<close> raises for
  an absent key, and carries the key.

  Modelled from the spec: \<open>ProtocolError\<close>. The hypervisor module is not part of the
  source; this is the failure kind the specification gives the command channel, with the
  offending command and the raw response. The methods below never construct it: they
  pass on whatever exception the channel raises.
\<close>

datatype exn =
    DynamipsError string
  | KeyError circuit
  | ProtocolError string string

text \<open>
  A NIO object, as far as this class reads it: its string form (\<^verbatim>\<open>"{}".format(nio)\<close>) and
  the two properties \<^verbatim>\<open>input_filter\<close> and \<^verbatim>\<open>output_filter\<close>, each a pair whose first
  component is \<^verbatim>\<open>None\<close> or the name of the filter bound in that direction.
\<close>

record nio =
  nio_str :: string
  input_filter :: "string option \<times> string option"
  output_filter :: "string option \<times> string option"

datatype nio_call =
    BindFilter string string
  | SetupFilter string string
  | UnbindFilter string

text \<open>
  NIO objects live in a store and the port table holds references to them, so that one
  object bound to two ports is one object. \<open>sent\<close> lists the commands passed to
  \<^verbatim>\<open>self._hypervisor.send\<close>, oldest first, and \<open>nio_calls\<close> the capability calls made on
  NIO objects, each with the reference it was made on. \<open>node_id\<close> is \<^verbatim>\<open>self._id\<close>.
\<close>

type_synonym ref = nat

record atm_switch =
  name :: string
  node_id :: string
  nios :: "int \<rightharpoonup> ref"
  mapping :: "circuit \<rightharpoonup> circuit"
  sent :: "string list"
  store :: "ref \<Rightarrow> nio"
  nio_calls :: "(ref \<times> nio_call) list"

text \<open>
  The collaborators whose code is not part of this class are parameters. \<open>send\<close> is the
  channel: given the commands sent so far and the next command it acknowledges (\<open>None\<close>)
  or raises. The three NIO capabilities take the object and the call's arguments and
  return the object afterwards, with the exception if they raise.
\<close>

record env =
  send :: "string list \<Rightarrow> string \<Rightarrow> exn option"
  bind_filter :: "nio \<Rightarrow> string \<Rightarrow> string \<Rightarrow> exn option \<times> nio"
  setup_filter :: "nio \<Rightarrow> string \<Rightarrow> string \<Rightarrow> exn option \<times> nio"
  unbind_filter :: "nio \<Rightarrow> string \<Rightarrow> exn option \<times> nio"

type_synonym 'a result = "(exn + 'a) \<times> atm_switch"

subsection \<open>Calls on the collaborators\<close>

text \<open>\<^verbatim>\<open>yield from self._hypervisor.send(cmd)\<close>: the command is on the channel either way.\<close>

definition hypervisor_send :: "env \<Rightarrow> string \<Rightarrow> atm_switch \<Rightarrow> unit result" where
  "hypervisor_send E cmd s =
     (let s' = s\<lparr>sent := sent s @ [cmd]\<rparr>
      in case send E (sent s) cmd of
           Some e \<Rightarrow> (Inl e, s')
         | None \<Rightarrow> (Inr (), s'))"

definition nio_invoke ::
  "(nio \<Rightarrow> exn option \<times> nio) \<Rightarrow> nio_call \<Rightarrow> ref \<Rightarrow> atm_switch \<Rightarrow> unit result" where
  "nio_invoke f c r s =
     (let (x, n) = f (store s r);
          s' = s\<lparr>store := (store s)(r := n), nio_calls := nio_calls s @ [(r, c)]\<rparr>
      in case x of Some e \<Rightarrow> (Inl e, s') | None \<Rightarrow> (Inr (), s'))"

definition nio_bind_filter :: "env \<Rightarrow> ref \<Rightarrow> string \<Rightarrow> string \<Rightarrow> atm_switch \<Rightarrow> unit result" where
  "nio_bind_filter E r direction filter_name =
     nio_invoke (\<lambda>n. bind_filter E n direction filter_name) (BindFilter direction filter_name) r"

definition nio_setup_filter :: "env \<Rightarrow> ref \<Rightarrow> string \<Rightarrow> string \<Rightarrow> atm_switch \<Rightarrow> unit result" where
  "nio_setup_filter E r direction options =
     nio_invoke (\<lambda>n. setup_filter E n direction options) (SetupFilter direction options) r"

definition nio_unbind_filter :: "env \<Rightarrow> ref \<Rightarrow> string \<Rightarrow> atm_switch \<Rightarrow> unit result" where
  "nio_unbind_filter E r direction =
     nio_invoke (\<lambda>n. unbind_filter E n direction) (UnbindFilter direction) r"

subsection \<open>Messages and commands\<close>

definition not_free_msg :: "int \<Rightarrow> string" where
  \<open>not_free_msg port = ''Port '' @ str_int port @ '' isn't free''\<close>

definition not_allocated_msg :: "int \<Rightarrow> string" where
  \<open>not_allocated_msg port = ''Port '' @ str_int port @ '' is not allocated''\<close>

definition filter_applied_msg :: "int \<Rightarrow> string" where
  \<open>filter_applied_msg port = ''Port '' @ str_int port @ '' has already a filter applied''\<close>

definition rename_cmd :: "string \<Rightarrow> string \<Rightarrow> string" where
  \<open>rename_cmd nm new_name = ''atm rename "'' @ nm @ ''" "'' @ new_name @ ''"''\<close>

definition vpc_cmd :: "string \<Rightarrow> string \<Rightarrow> string \<Rightarrow> int \<Rightarrow> string \<Rightarrow> int \<Rightarrow> string" where
  \<open>vpc_cmd verb nm input_nio input_vpi output_nio output_vpi =
     ''atmsw '' @ verb @ '' "'' @ nm @ ''" '' @ input_nio @ '' '' @ str_int input_vpi
       @ '' '' @ output_nio @ '' '' @ str_int output_vpi\<close>

definition vcc_cmd ::
  "string \<Rightarrow> string \<Rightarrow> string \<Rightarrow> int \<Rightarrow> int \<Rightarrow> string \<Rightarrow> int \<Rightarrow> int \<Rightarrow> string" where
  \<open>vcc_cmd verb nm input_nio input_vpi input_vci output_nio output_vpi output_vci =
     ''atmsw '' @ verb @ '' "'' @ nm @ ''" '' @ input_nio @ '' '' @ str_int input_vpi
       @ '' '' @ str_int input_vci @ '' '' @ output_nio @ '' '' @ str_int output_vpi
       @ '' '' @ str_int output_vci\<close>

subsection \<open>The methods\<close>

definition set_name :: "env \<Rightarrow> string \<Rightarrow> atm_switch \<Rightarrow> unit result" where
  "set_name E new_name s =
     (case hypervisor_send E (rename_cmd (name s) new_name) s of
        (Inl e, s') \<Rightarrow> (Inl e, s')
      | (Inr _, s') \<Rightarrow> (Inr (), s'\<lparr>name := new_name\<rparr>))"

definition has_port :: "int \<Rightarrow> atm_switch \<Rightarrow> bool" where
  "has_port port s = (if port \<in> dom (nios s) then True else False)"

definition add_nio :: "ref \<Rightarrow> int \<Rightarrow> atm_switch \<Rightarrow> unit result" where
  "add_nio n port_number s =
     (if port_number \<in> dom (nios s)
      then (Inl (DynamipsError (not_free_msg port_number)), s)
      else (Inr (), s\<lparr>nios := (nios s)(port_number \<mapsto> n)\<rparr>))"

definition remove_nio :: "int \<Rightarrow> atm_switch \<Rightarrow> ref result" where
  "remove_nio port_number s =
     (case nios s port_number of
        None \<Rightarrow> (Inl (DynamipsError (not_allocated_msg port_number)), s)
      | Some n \<Rightarrow> (Inr n, s\<lparr>nios := (nios s)(port_number := None)\<rparr>))"

definition map_vp :: "env \<Rightarrow> int \<Rightarrow> int \<Rightarrow> int \<Rightarrow> int \<Rightarrow> atm_switch \<Rightarrow> unit result" where
  "map_vp E port1 vpi1 port2 vpi2 s =
     (case nios s port1 of
        None \<Rightarrow> (Inl (DynamipsError (not_allocated_msg port1)), s)
      | Some nio1 \<Rightarrow>
     (case nios s port2 of
        None \<Rightarrow> (Inl (DynamipsError (not_allocated_msg port2)), s)
      | Some nio2 \<Rightarrow>
     (case hypervisor_send E
             (vpc_cmd ''create_vpc'' (name s) (nio_str (store s nio1)) vpi1
                (nio_str (store s nio2)) vpi2) s of
        (Inl e, s') \<Rightarrow> (Inl e, s')
      | (Inr _, s') \<Rightarrow>
          (Inr (), s'\<lparr>mapping := (mapping s')(VP port1 vpi1 \<mapsto> VP port2 vpi2)\<rparr>))))"

definition unmap_vp :: "env \<Rightarrow> int \<Rightarrow> int \<Rightarrow> int \<Rightarrow> int \<Rightarrow> atm_switch \<Rightarrow> unit result" where
  "unmap_vp E port1 vpi1 port2 vpi2 s =
     (case nios s port1 of
        None \<Rightarrow> (Inl (DynamipsError (not_allocated_msg port1)), s)
      | Some nio1 \<Rightarrow>
     (case nios s port2 of
        None \<Rightarrow> (Inl (DynamipsError (not_allocated_msg port2)), s)
      | Some nio2 \<Rightarrow>
     (case hypervisor_send E
             (vpc_cmd ''delete_vpc'' (name s) (nio_str (store s nio1)) vpi1
                (nio_str (store s nio2)) vpi2) s of
        (Inl e, s') \<Rightarrow> (Inl e, s')
      | (Inr _, s') \<Rightarrow>
          (if VP port1 vpi1 \<in> dom (mapping s')
           then (Inr (), s'\<lparr>mapping := (mapping s')(VP port1 vpi1 := None)\<rparr>)
           else (Inl (KeyError (VP port1 vpi1)), s')))))"

definition map_pvc ::
  "env \<Rightarrow> int \<Rightarrow> int \<Rightarrow> int \<Rightarrow> int \<Rightarrow> int \<Rightarrow> int \<Rightarrow> atm_switch \<Rightarrow> unit result" where
  "map_pvc E port1 vpi1 vci1 port2 vpi2 vci2 s =
     (case nios s port1 of
        None \<Rightarrow> (Inl (DynamipsError (not_allocated_msg port1)), s)
      | Some nio1 \<Rightarrow>
     (case nios s port2 of
        None \<Rightarrow> (Inl (DynamipsError (not_allocated_msg port2)), s)
      | Some nio2 \<Rightarrow>
     (case hypervisor_send E
             (vcc_cmd ''create_vcc'' (name s) (nio_str (store s nio1)) vpi1 vci1
                (nio_str (store s nio2)) vpi2 vci2) s of
        (Inl e, s') \<Rightarrow> (Inl e, s')
      | (Inr _, s') \<Rightarrow>
          (Inr (), s'\<lparr>mapping := (mapping s')(VC port1 vpi1 vci1 \<mapsto> VC port2 vpi2 vci2)\<rparr>))))"

definition unmap_pvc ::
  "env \<Rightarrow> int \<Rightarrow> int \<Rightarrow> int \<Rightarrow> int \<Rightarrow> int \<Rightarrow> int \<Rightarrow> atm_switch \<Rightarrow> unit result" where
  "unmap_pvc E port1 vpi1 vci1 port2 vpi2 vci2 s =
     (case nios s port1 of
        None \<Rightarrow> (Inl (DynamipsError (not_allocated_msg port1)), s)
      | Some nio1 \<Rightarrow>
     (case nios s port2 of
        None \<Rightarrow> (Inl (DynamipsError (not_allocated_msg port2)), s)
      | Some nio2 \<Rightarrow>
     (case hypervisor_send E
             (vcc_cmd ''delete_vcc'' (name s) (nio_str (store s nio1)) vpi1 vci1
                (nio_str (store s nio2)) vpi2 vci2) s of
        (Inl e, s') \<Rightarrow> (Inl e, s')
      | (Inr _, s') \<Rightarrow>
          (if VC port1 vpi1 vci1 \<in> dom (mapping s')
           then (Inr (), s'\<lparr>mapping := (mapping s')(VC port1 vpi1 vci1 := None)\<rparr>)
           else (Inl (KeyError (VC port1 vpi1 vci1)), s')))))"

definition start_capture :: "env \<Rightarrow> int \<Rightarrow> string \<Rightarrow> string \<Rightarrow> atm_switch \<Rightarrow> unit result" where
  "start_capture E port_number output_file data_link_type s =
     (case nios s port_number of
        None \<Rightarrow> (Inl (DynamipsError (not_allocated_msg port_number)), s)
      | Some n \<Rightarrow>
          (let data_link_type = lower data_link_type;
               data_link_type =
                 (if startswith data_link_type ''dlt_'' then drop 4 data_link_type
                  else data_link_type)
           in if fst (input_filter (store s n)) \<noteq> None \<and> fst (output_filter (store s n)) \<noteq> None
              then (Inl (DynamipsError (filter_applied_msg port_number)), s)
              else (case nio_bind_filter E n ''both'' ''capture'' s of
                      (Inl e, s') \<Rightarrow> (Inl e, s')
                    | (Inr _, s') \<Rightarrow>
                        nio_setup_filter E n ''both'' (data_link_type @ '' '' @ output_file) s')))"

definition stop_capture :: "env \<Rightarrow> int \<Rightarrow> atm_switch \<Rightarrow> unit result" where
  "stop_capture E port_number s =
     (case nios s port_number of
        None \<Rightarrow> (Inl (DynamipsError (not_allocated_msg port_number)), s)
      | Some n \<Rightarrow> nio_unbind_filter E n ''both'' s)"

subsection \<open>The data-link-type tag as the specification words it\<close>

text \<open>
  Lower-case the tag; if the first four characters of the result are \<^verbatim>\<open>dlt_\<close>, remove
  them.
\<close>

definition spec_normalize :: "string \<Rightarrow> string" where
  "spec_normalize tag =
     (let l = lower tag in if take 4 l = ''dlt_'' then drop 4 l else l)"

subsection \<open>Example collaborators and states\<close>

text \<open>
  A NIO whose capabilities always succeed: binding in direction \<^verbatim>\<open>both\<close> records the filter
  name on both sides, setup records the options, unbinding clears both sides.
\<close>

definition ok_bind :: "nio \<Rightarrow> string \<Rightarrow> string \<Rightarrow> exn option \<times> nio" where
  "ok_bind n direction filter_name =
     (None, n\<lparr>input_filter := (Some filter_name, None), output_filter := (Some filter_name, None)\<rparr>)"

definition ok_setup :: "nio \<Rightarrow> string \<Rightarrow> string \<Rightarrow> exn option \<times> nio" where
  "ok_setup n direction options =
     (None, n\<lparr>input_filter := (fst (input_filter n), Some options),
              output_filter := (fst (output_filter n), Some options)\<rparr>)"

definition ok_unbind :: "nio \<Rightarrow> string \<Rightarrow> exn option \<times> nio" where
  "ok_unbind n direction = (None, n\<lparr>input_filter := (None, None), output_filter := (None, None)\<rparr>)"

text \<open>A channel that acknowledges every command, and one that rejects every command.\<close>

definition env_ack :: env where
  "env_ack = \<lparr>send = (\<lambda>_ _. None), bind_filter = ok_bind, setup_filter = ok_setup,
              unbind_filter = ok_unbind\<rparr>"

definition env_fail :: env where
  "env_fail = \<lparr>send = (\<lambda>_ cmd. Some (ProtocolError cmd ''209-unable to process'')),
               bind_filter = ok_bind, setup_filter = ok_setup, unbind_filter = ok_unbind\<rparr>"

definition idle_nio :: "string \<Rightarrow> nio" where
  "idle_nio nm = \<lparr>nio_str = nm, input_filter = (None, None), output_filter = (None, None)\<rparr>"

text \<open>
  Switch \<^verbatim>\<open>SW1\<close> with ports 1, 2 and 3 bound to three NIO objects, no circuit, nothing sent.
\<close>

definition sw1 :: atm_switch where
  "sw1 = \<lparr>name = ''SW1'', node_id = ''7f3c'',
          nios = [1 \<mapsto> 0, 2 \<mapsto> 1, 3 \<mapsto> 2],
          mapping = Map.empty, sent = [],
          store = (\<lambda>_. idle_nio ''nio_udp0'')(1 := idle_nio ''nio_udp1'', 2 := idle_nio ''nio_udp2''),
          nio_calls = []\<rparr>"

text \<open>The same switch with a circuit already stored on source key \<^verbatim>\<open>(1, 5)\<close>.\<close>

definition sw1_mapped :: atm_switch where
  "sw1_mapped = sw1\<lparr>mapping := [VP 1 5 \<mapsto> VP 2 9, VC 1 5 100 \<mapsto> VC 2 7 200]\<rparr>"

text \<open>
  The same switch with two path circuits in a chain, the destination \<^verbatim>\<open>(2, 7)\<close> of the
  first being the source of the second, and two channel circuits chained in the same way.
\<close>

definition sw1_chained :: atm_switch where
  "sw1_chained =
     sw1\<lparr>mapping := [VP 1 5 \<mapsto> VP 2 7, VP 2 7 \<mapsto> VP 3 9,
                      VC 1 5 100 \<mapsto> VC 2 7 200, VC 2 7 200 \<mapsto> VC 3 9 300]\<rparr>"

text \<open>The same switch whose NIO on port 3 has a filter on its input side only.\<close>

definition sw1_input_filter :: atm_switch where
  "sw1_input_filter =
     sw1\<lparr>store := (store sw1)(2 := (idle_nio ''nio_udp2'')\<lparr>input_filter := (Some ''freq_drop'', None)\<rparr>)\<rparr>"

text \<open>The same switch whose NIO on port 3 has the capture filter on both sides.\<close>

definition sw1_capturing :: atm_switch where
  "sw1_capturing =
     sw1\<lparr>store := (store sw1)(2 := \<lparr>nio_str = ''nio_udp2'',
         input_filter = (Some ''capture'', Some ''atm_rfc1483 /tmp/a.pcap''),
         output_filter = (Some ''capture'', Some ''atm_rfc1483 /tmp/a.pcap'')\<rparr>)\<rparr>"

section \<open>Properties\<close>

subsection \<open>Evaluation and the channel\<close>

lemmas str_eval = str_int_def str_nat.simps digit_char_def

lemmas msg_defs = not_free_msg_def not_allocated_msg_def filter_applied_msg_def
  rename_cmd_def vpc_cmd_def vcc_cmd_def

lemma hypervisor_send_alt:
  "hypervisor_send E cmd s =
     (case send E (sent s) cmd of
        Some e \<Rightarrow> (Inl e, s\<lparr>sent := sent s @ [cmd]\<rparr>)
      | None \<Rightarrow> (Inr (), s\<lparr>sent := sent s @ [cmd]\<rparr>))"
  by (simp add: hypervisor_send_def Let_def)

lemma nio_invoke_alt:
  "nio_invoke f c r s =
     (case fst (f (store s r)) of Some e \<Rightarrow> Inl e | None \<Rightarrow> Inr (),
      s\<lparr>store := (store s)(r := snd (f (store s r))), nio_calls := nio_calls s @ [(r, c)]\<rparr>)"
  by (simp add: nio_invoke_def Let_def split: prod.splits option.splits)

lemmas nio_defs = nio_bind_filter_def nio_setup_filter_def nio_unbind_filter_def

lemma startswith_take: "startswith s p \<longleftrightarrow> take (length p) s = p"
  by (induction s p rule: startswith.induct) auto

lemma startswith_dlt: "startswith l ''dlt_'' \<longleftrightarrow> take 4 l = ''dlt_''"
  using startswith_take [of l "''dlt_''"] by (simp add: eval_nat_numeral)

lemma lower_default: "lower ''DLT_ATM_RFC1483'' = ''dlt_atm_rfc1483''"
  by code_simp

lemma spec_normalize_default: "spec_normalize ''DLT_ATM_RFC1483'' = ''atm_rfc1483''"
  by code_simp

subsection \<open>Port table\<close>

text \<open>
  C8. A failing port-table operation leaves the port table as it was. When port \<open>p\<close> is
  bound to NIO \<open>n\<close>, adding another NIO \<open>n2\<close> on \<open>p\<close> raises the port-conflict error
  (\<^verbatim>\<open>DynamipsError\<close>, "Port p isn't free"), the whole state is unchanged and \<open>p\<close> is still
  bound to \<open>n\<close>. When \<open>p\<close> has no binding, removing it raises the port-not-allocated
  error and the whole state is unchanged.
\<close>

theorem failed_port_ops_keep_table:
  "(nios s p = Some n \<longrightarrow>
      add_nio n2 p s = (Inl (DynamipsError (not_free_msg p)), s) \<and>
      nios (snd (add_nio n2 p s)) p = Some n) \<and>
   (nios s p = None \<longrightarrow>
      remove_nio p s = (Inl (DynamipsError (not_allocated_msg p)), s))"
  by (auto simp: add_nio_def remove_nio_def)

theorem failed_port_ops_keep_table_witness:
  "nios sw1 1 = Some 0 \<and> nios sw1 9 = None \<and>
   add_nio 7 1 sw1 = (Inl (DynamipsError ''Port 1 isn't free''), sw1) \<and>
   nios (snd (add_nio 7 1 sw1)) 1 = Some 0 \<and>
   remove_nio 9 sw1 = (Inl (DynamipsError ''Port 9 is not allocated''), sw1)"
  using failed_port_ops_keep_table [where s = sw1 and p = 1 and n = 0 and ?n2.0 = 7]
    failed_port_ops_keep_table [where s = sw1 and p = 9 and n = 0 and ?n2.0 = 7]
  by (simp add: sw1_def msg_defs str_eval)

subsection \<open>Creating circuits\<close>

text \<open>
  C4. When at least one of the two ports of \<^verbatim>\<open>map_vp\<close> or \<^verbatim>\<open>map_pvc\<close> has no NIO bound,
  the call raises the port-not-allocated error for the first such port and returns the
  state it was given: nothing was sent on the channel, and the port table and the circuit
  table are unchanged.
\<close>

theorem map_unallocated_port_fails_silently:
  assumes "nios s port1 = None \<or> nios s port2 = None"
  shows "map_vp E port1 vpi1 port2 vpi2 s =
           (Inl (DynamipsError (not_allocated_msg (if nios s port1 = None then port1 else port2))), s)
       \<and> map_pvc E port1 vpi1 vci1 port2 vpi2 vci2 s =
           (Inl (DynamipsError (not_allocated_msg (if nios s port1 = None then port1 else port2))), s)"
  using assms by (auto simp: map_vp_def map_pvc_def split: option.splits)

theorem map_unallocated_port_fails_silently_witness:
  "(nios sw1 1 = None \<or> nios sw1 8 = None) \<and>
   map_vp env_ack 1 5 8 7 sw1 = (Inl (DynamipsError ''Port 8 is not allocated''), sw1) \<and>
   map_pvc env_ack 1 5 100 8 7 200 sw1 = (Inl (DynamipsError ''Port 8 is not allocated''), sw1)"
  using map_unallocated_port_fails_silently
    [where s = sw1 and ?port1.0 = 1 and ?port2.0 = 8 and E = env_ack and ?vpi1.0 = 5
       and ?vpi2.0 = 7 and ?vci1.0 = 100 and ?vci2.0 = 200]
  by (simp add: sw1_def msg_defs str_eval)

subsection \<open>A command the channel rejects\<close>

text \<open>
  C1. Each of \<^verbatim>\<open>set_name\<close>, \<^verbatim>\<open>map_vp\<close>, \<^verbatim>\<open>unmap_vp\<close>, \<^verbatim>\<open>map_pvc\<close> and \<^verbatim>\<open>unmap_pvc\<close>
  sends one command: the rename command for \<^verbatim>\<open>set_name\<close>, and, once both ports are
  found allocated, the create or delete command built from the two NIOs for the circuit
  methods. If the channel raises on that command, the call ends with the channel's
  exception, and the state afterwards is the state before with the command added to the
  channel's log and nothing else changed: the stored name, the circuit table and the
  port table are what they were. So a rejected \<^verbatim>\<open>map_vp\<close> adds no entry and surfaces the
  channel's error.
\<close>

theorem send_failure_propagates_state_kept:
  "(send E (sent s) (rename_cmd (name s) new_name) = Some e0 \<longrightarrow>
      set_name E new_name s =
        (Inl e0, s\<lparr>sent := sent s @ [rename_cmd (name s) new_name]\<rparr>)) \<and>
   (nios s port1 = Some nio1 \<and> nios s port2 = Some nio2 \<longrightarrow>
      (send E (sent s) (vpc_cmd ''create_vpc'' (name s) (nio_str (store s nio1)) vpi1
                          (nio_str (store s nio2)) vpi2) = Some e1 \<longrightarrow>
         map_vp E port1 vpi1 port2 vpi2 s =
           (Inl e1, s\<lparr>sent := sent s @ [vpc_cmd ''create_vpc'' (name s)
                              (nio_str (store s nio1)) vpi1 (nio_str (store s nio2)) vpi2]\<rparr>)) \<and>
      (send E (sent s) (vpc_cmd ''delete_vpc'' (name s) (nio_str (store s nio1)) vpi1
                          (nio_str (store s nio2)) vpi2) = Some e2 \<longrightarrow>
         unmap_vp E port1 vpi1 port2 vpi2 s =
           (Inl e2, s\<lparr>sent := sent s @ [vpc_cmd ''delete_vpc'' (name s)
                              (nio_str (store s nio1)) vpi1 (nio_str (store s nio2)) vpi2]\<rparr>)) \<and>
      (send E (sent s) (vcc_cmd ''create_vcc'' (name s) (nio_str (store s nio1)) vpi1 vci1
                          (nio_str (store s nio2)) vpi2 vci2) = Some e3 \<longrightarrow>
         map_pvc E port1 vpi1 vci1 port2 vpi2 vci2 s =
           (Inl e3, s\<lparr>sent := sent s @ [vcc_cmd ''create_vcc'' (name s)
                              (nio_str (store s nio1)) vpi1 vci1
                              (nio_str (store s nio2)) vpi2 vci2]\<rparr>)) \<and>
      (send E (sent s) (vcc_cmd ''delete_vcc'' (name s) (nio_str (store s nio1)) vpi1 vci1
                          (nio_str (store s nio2)) vpi2 vci2) = Some e4 \<longrightarrow>
         unmap_pvc E port1 vpi1 vci1 port2 vpi2 vci2 s =
           (Inl e4, s\<lparr>sent := sent s @ [vcc_cmd ''delete_vcc'' (name s)
                              (nio_str (store s nio1)) vpi1 vci1
                              (nio_str (store s nio2)) vpi2 vci2]\<rparr>))) \<and>
   name (s\<lparr>sent := l\<rparr>) = name s \<and> mapping (s\<lparr>sent := l\<rparr>) = mapping s \<and>
   nios (s\<lparr>sent := l\<rparr>) = nios s"
  by (simp add: set_name_def map_vp_def unmap_vp_def map_pvc_def unmap_pvc_def
      hypervisor_send_alt)

theorem send_failure_propagates_state_kept_witness:
  \<open>nios sw1 1 = Some 0 \<and> nios sw1 2 = Some 1 \<and>
   send env_fail (sent sw1) ''atm rename "SW1" "SW2"''
     = Some (ProtocolError ''atm rename "SW1" "SW2"'' ''209-unable to process'') \<and>
   send env_fail (sent sw1) ''atmsw create_vpc "SW1" nio_udp0 5 nio_udp1 7''
     = Some (ProtocolError ''atmsw create_vpc "SW1" nio_udp0 5 nio_udp1 7''
               ''209-unable to process'') \<and>
   set_name env_fail ''SW2'' sw1 =
     (Inl (ProtocolError ''atm rename "SW1" "SW2"'' ''209-unable to process''),
      sw1\<lparr>sent := [''atm rename "SW1" "SW2"'']\<rparr>) \<and>
   map_vp env_fail 1 5 2 7 sw1 =
     (Inl (ProtocolError ''atmsw create_vpc "SW1" nio_udp0 5 nio_udp1 7''
             ''209-unable to process''),
      sw1\<lparr>sent := [''atmsw create_vpc "SW1" nio_udp0 5 nio_udp1 7'']\<rparr>) \<and>
   unmap_vp env_fail 1 5 2 7 sw1 =
     (Inl (ProtocolError ''atmsw delete_vpc "SW1" nio_udp0 5 nio_udp1 7''
             ''209-unable to process''),
      sw1\<lparr>sent := [''atmsw delete_vpc "SW1" nio_udp0 5 nio_udp1 7'']\<rparr>) \<and>
   map_pvc env_fail 1 5 100 2 7 200 sw1 =
     (Inl (ProtocolError ''atmsw create_vcc "SW1" nio_udp0 5 100 nio_udp1 7 200''
             ''209-unable to process''),
      sw1\<lparr>sent := [''atmsw create_vcc "SW1" nio_udp0 5 100 nio_udp1 7 200'']\<rparr>) \<and>
   unmap_pvc env_fail 1 5 100 2 7 200 sw1 =
     (Inl (ProtocolError ''atmsw delete_vcc "SW1" nio_udp0 5 100 nio_udp1 7 200''
             ''209-unable to process''),
      sw1\<lparr>sent := [''atmsw delete_vcc "SW1" nio_udp0 5 100 nio_udp1 7 200'']\<rparr>) \<and>
   mapping (sw1\<lparr>sent := [''atmsw create_vpc "SW1" nio_udp0 5 nio_udp1 7'']\<rparr>) = mapping sw1\<close>
proof -
  let ?r = \<open>''atm rename "SW1" "SW2"''\<close>
  let ?cvp = \<open>''atmsw create_vpc "SW1" nio_udp0 5 nio_udp1 7''\<close>
  let ?dvp = \<open>''atmsw delete_vpc "SW1" nio_udp0 5 nio_udp1 7''\<close>
  let ?cvc = \<open>''atmsw create_vcc "SW1" nio_udp0 5 100 nio_udp1 7 200''\<close>
  let ?dvc = \<open>''atmsw delete_vcc "SW1" nio_udp0 5 100 nio_udp1 7 200''\<close>
  have a: "nios sw1 1 = Some 0" and b: "nios sw1 2 = Some 1" and l: "sent sw1 = []"
    by (simp_all add: sw1_def)
  have c: "rename_cmd (name sw1) ''SW2'' = ?r"
    "vpc_cmd ''create_vpc'' (name sw1) (nio_str (store sw1 0)) 5 (nio_str (store sw1 1)) 7 = ?cvp"
    "vpc_cmd ''delete_vpc'' (name sw1) (nio_str (store sw1 0)) 5 (nio_str (store sw1 1)) 7 = ?dvp"
    "vcc_cmd ''create_vcc'' (name sw1) (nio_str (store sw1 0)) 5 100
       (nio_str (store sw1 1)) 7 200 = ?cvc"
    "vcc_cmd ''delete_vcc'' (name sw1) (nio_str (store sw1 0)) 5 100
       (nio_str (store sw1 1)) 7 200 = ?dvc"
    by (simp_all add: sw1_def idle_nio_def rename_cmd_def vpc_cmd_def vcc_cmd_def str_eval)
  have e: "send env_fail h x = Some (ProtocolError x ''209-unable to process'')" for h x
    by (simp add: env_fail_def)
  from send_failure_propagates_state_kept
         [where E = env_fail and s = sw1 and new_name = "''SW2''"
            and ?port1.0 = 1 and ?port2.0 = 2 and ?nio1.0 = 0 and ?nio2.0 = 1
            and ?vpi1.0 = 5 and ?vpi2.0 = 7 and ?vci1.0 = 100 and ?vci2.0 = 200
            and ?e0.0 = "ProtocolError ?r ''209-unable to process''"
            and ?e1.0 = "ProtocolError ?cvp ''209-unable to process''"
            and ?e2.0 = "ProtocolError ?dvp ''209-unable to process''"
            and ?e3.0 = "ProtocolError ?cvc ''209-unable to process''"
            and ?e4.0 = "ProtocolError ?dvc ''209-unable to process''"
            and l = "[?cvp]"]
       a b c e l
  show ?thesis by simp
qed

subsection \<open>Map, then unmap\<close>

text \<open>
  C5 as stated does not hold. On a switch whose table already has a circuit on source key
  \<^verbatim>\<open>(1, 5)\<close>, \<^verbatim>\<open>map_vp(1, 5, 2, 7)\<close> overwrites that entry and \<^verbatim>\<open>unmap_vp(1, 5, 2, 7)\<close>
  deletes it: both calls succeed, and the table afterwards has lost the entry it had
  before the first call.
\<close>

theorem map_unmap_loses_earlier_circuit:
  "nios sw1_mapped 1 = Some 0 \<and> nios sw1_mapped 2 = Some 1 \<and>
   fst (map_vp env_ack 1 5 2 7 sw1_mapped) = Inr () \<and>
   fst (unmap_vp env_ack 1 5 2 7 (snd (map_vp env_ack 1 5 2 7 sw1_mapped))) = Inr () \<and>
   mapping sw1_mapped (VP 1 5) = Some (VP 2 9) \<and>
   mapping (snd (unmap_vp env_ack 1 5 2 7 (snd (map_vp env_ack 1 5 2 7 sw1_mapped)))) (VP 1 5)
     = None \<and>
   mapping (snd (unmap_vp env_ack 1 5 2 7 (snd (map_vp env_ack 1 5 2 7 sw1_mapped))))
     \<noteq> mapping sw1_mapped"
proof -
  let ?s2 = "snd (unmap_vp env_ack 1 5 2 7 (snd (map_vp env_ack 1 5 2 7 sw1_mapped)))"
  have a: "mapping ?s2 (VP 1 5) = None"
    by (simp add: map_vp_def unmap_vp_def hypervisor_send_alt env_ack_def sw1_mapped_def sw1_def)
  have b: "mapping sw1_mapped (VP 1 5) = Some (VP 2 9)"
    by (simp add: sw1_mapped_def sw1_def)
  from a b have "mapping ?s2 \<noteq> mapping sw1_mapped" by auto
  with a b show ?thesis
    by (simp add: map_vp_def unmap_vp_def hypervisor_send_alt env_ack_def sw1_mapped_def sw1_def)
qed

text \<open>
  C5, amended. When both ports are allocated and the channel acknowledges every command,
  \<^verbatim>\<open>map_vp(port1, vpi1, port2, vpi2)\<close> followed by \<^verbatim>\<open>unmap_vp\<close> with the same arguments
  succeeds twice and leaves the circuit table equal to the table before the first call
  with the key \<^verbatim>\<open>(port1, vpi1)\<close> removed. No such key remains, and the table is exactly the
  earlier one whenever that key was not in it.
\<close>

theorem map_unmap_removes_source_key:
  assumes "nios s port1 = Some n1" "nios s port2 = Some n2" "\<forall>h c. send E h c = None"
  shows "\<exists>s1 s2. map_vp E port1 vpi1 port2 vpi2 s = (Inr (), s1) \<and>
            unmap_vp E port1 vpi1 port2 vpi2 s1 = (Inr (), s2) \<and>
            mapping s2 = (mapping s)(VP port1 vpi1 := None) \<and>
            mapping s2 (VP port1 vpi1) = None \<and>
            (mapping s (VP port1 vpi1) = None \<longrightarrow> mapping s2 = mapping s)"
  using assms by (auto simp: map_vp_def unmap_vp_def hypervisor_send_alt)

theorem map_unmap_removes_source_key_witness:
  "nios sw1 1 = Some 0 \<and> nios sw1 2 = Some 1 \<and> (\<forall>h c. send env_ack h c = None) \<and>
   mapping sw1 (VP 1 5) = None \<and>
   mapping (snd (unmap_vp env_ack 1 5 2 7 (snd (map_vp env_ack 1 5 2 7 sw1)))) = mapping sw1"
proof -
  have a: "nios sw1 1 = Some 0" and b: "nios sw1 2 = Some 1"
    and m: "mapping sw1 (VP 1 5) = None"
    by (simp_all add: sw1_def)
  have c: "\<forall>h c. send env_ack h c = None" by (simp add: env_ack_def)
  from map_unmap_removes_source_key [OF a b c, of 5 7] m
  have "mapping (snd (unmap_vp env_ack 1 5 2 7 (snd (map_vp env_ack 1 5 2 7 sw1)))) = mapping sw1"
    by auto
  with a b c m show ?thesis by simp
qed

subsection \<open>Deleting circuits\<close>

text \<open>
  C3 as stated does not hold. With ports 1 and 2 allocated and no circuit stored on
  \<^verbatim>\<open>(1, 5)\<close>, \<^verbatim>\<open>unmap_vp(1, 5, 2, 7)\<close> first sends the \<^verbatim>\<open>delete_vpc\<close> command, and only when
  the channel has acknowledged it does \<^verbatim>\<open>del\<close> raise \<^verbatim>\<open>KeyError\<close>: one command has been
  issued, not zero.
\<close>

theorem unmap_absent_key_sends_command:
  \<open>nios sw1 1 = Some 0 \<and> nios sw1 2 = Some 1 \<and> mapping sw1 (VP 1 5) = None \<and> sent sw1 = [] \<and>
   unmap_vp env_ack 1 5 2 7 sw1 =
     (Inl (KeyError (VP 1 5)),
      sw1\<lparr>sent := [''atmsw delete_vpc "SW1" nio_udp0 5 nio_udp1 7'']\<rparr>) \<and>
   length (sent (snd (unmap_vp env_ack 1 5 2 7 sw1))) = 1\<close>
  by (simp add: unmap_vp_def hypervisor_send_alt env_ack_def sw1_def idle_nio_def vpc_cmd_def
      str_eval)

text \<open>
  C3, amended. When both ports are allocated and the source key is absent from the
  circuit table, \<^verbatim>\<open>unmap_vp\<close> (and likewise \<^verbatim>\<open>unmap_pvc\<close>) sends exactly one command, the
  delete command, and then fails: with the channel's exception if the channel raised, and
  otherwise with \<^verbatim>\<open>KeyError\<close> carrying the source key. The state afterwards differs from
  the state before only in the channel's log, so the circuit table is unchanged.
\<close>

theorem unmap_absent_key_fails_after_send:
  assumes "nios s port1 = Some nio1" "nios s port2 = Some nio2"
  shows "(mapping s (VP port1 vpi1) = None \<longrightarrow>
          (let c = vpc_cmd ''delete_vpc'' (name s) (nio_str (store s nio1)) vpi1
                     (nio_str (store s nio2)) vpi2
           in unmap_vp E port1 vpi1 port2 vpi2 s =
                (Inl (case send E (sent s) c of
                        Some e \<Rightarrow> e | None \<Rightarrow> KeyError (VP port1 vpi1)),
                 s\<lparr>sent := sent s @ [c]\<rparr>)))
       \<and> (mapping s (VC port1 vpi1 vci1) = None \<longrightarrow>
          (let c = vcc_cmd ''delete_vcc'' (name s) (nio_str (store s nio1)) vpi1 vci1
                     (nio_str (store s nio2)) vpi2 vci2
           in unmap_pvc E port1 vpi1 vci1 port2 vpi2 vci2 s =
                (Inl (case send E (sent s) c of
                        Some e \<Rightarrow> e | None \<Rightarrow> KeyError (VC port1 vpi1 vci1)),
                 s\<lparr>sent := sent s @ [c]\<rparr>)))"
  using assms
  by (auto simp: unmap_vp_def unmap_pvc_def hypervisor_send_alt Let_def split: option.splits)

theorem unmap_absent_key_fails_after_send_witness:
  \<open>nios sw1 1 = Some 0 \<and> nios sw1 2 = Some 1 \<and>
   mapping sw1 (VP 1 5) = None \<and> mapping sw1 (VC 1 5 100) = None \<and>
   unmap_vp env_fail 1 5 2 7 sw1 =
     (Inl (ProtocolError ''atmsw delete_vpc "SW1" nio_udp0 5 nio_udp1 7''
             ''209-unable to process''),
      sw1\<lparr>sent := [''atmsw delete_vpc "SW1" nio_udp0 5 nio_udp1 7'']\<rparr>) \<and>
   unmap_pvc env_ack 1 5 100 2 7 200 sw1 =
     (Inl (KeyError (VC 1 5 100)),
      sw1\<lparr>sent := [''atmsw delete_vcc "SW1" nio_udp0 5 100 nio_udp1 7 200'']\<rparr>)\<close>
proof -
  let ?vp = \<open>''atmsw delete_vpc "SW1" nio_udp0 5 nio_udp1 7''\<close>
  let ?vc = \<open>''atmsw delete_vcc "SW1" nio_udp0 5 100 nio_udp1 7 200''\<close>
  have a: "nios sw1 1 = Some 0" and b: "nios sw1 2 = Some 1"
    and m: "mapping sw1 (VP 1 5) = None" "mapping sw1 (VC 1 5 100) = None"
    and l: "sent sw1 = []"
    by (simp_all add: sw1_def)
  have c: "vpc_cmd ''delete_vpc'' (name sw1) (nio_str (store sw1 0)) 5
             (nio_str (store sw1 1)) 7 = ?vp"
    "vcc_cmd ''delete_vcc'' (name sw1) (nio_str (store sw1 0)) 5 100
       (nio_str (store sw1 1)) 7 200 = ?vc"
    by (simp_all add: sw1_def idle_nio_def vpc_cmd_def vcc_cmd_def str_eval)
  have e: "send env_fail [] ?vp = Some (ProtocolError ?vp ''209-unable to process'')"
    "send env_ack [] ?vc = None"
    by (simp_all add: env_fail_def env_ack_def)
  have "unmap_vp env_fail 1 5 2 7 sw1 =
          (Inl (ProtocolError ?vp ''209-unable to process''), sw1\<lparr>sent := [?vp]\<rparr>)"
    using unmap_absent_key_fails_after_send
            [OF a b, where E = env_fail and ?vpi1.0 = 5 and ?vpi2.0 = 7] m c e l
    by (simp add: Let_def)
  moreover have "unmap_pvc env_ack 1 5 100 2 7 200 sw1 =
          (Inl (KeyError (VC 1 5 100)), sw1\<lparr>sent := [?vc]\<rparr>)"
    using unmap_absent_key_fails_after_send
            [OF a b, where E = env_ack and ?vpi1.0 = 5 and ?vci1.0 = 100 and ?vpi2.0 = 7
               and ?vci2.0 = 200] m c e l
    by (simp add: Let_def)
  ultimately show ?thesis using a b m by simp
qed

text \<open>
  C9. When both ports are allocated, the source key is in the circuit table and the
  channel acknowledges the delete command, \<^verbatim>\<open>unmap_vp\<close> succeeds and the state afterwards
  is the state before with the command added to the channel's log and the entry on
  \<^verbatim>\<open>(port1, vpi1)\<close> removed from the circuit table. Every other entry of the circuit
  table, the destination key's own entry among them when it differs from the source key,
  and the whole port table are unchanged. \<^verbatim>\<open>unmap_pvc\<close> does the same for
  \<^verbatim>\<open>(port1, vpi1, vci1)\<close>.
\<close>

theorem unmap_removes_exactly_source_key:
  assumes "nios s port1 = Some nio1" "nios s port2 = Some nio2"
  shows "(mapping s (VP port1 vpi1) \<noteq> None \<and>
          send E (sent s) (vpc_cmd ''delete_vpc'' (name s) (nio_str (store s nio1)) vpi1
                             (nio_str (store s nio2)) vpi2) = None
          \<longrightarrow> unmap_vp E port1 vpi1 port2 vpi2 s =
                (Inr (), s\<lparr>sent := sent s @ [vpc_cmd ''delete_vpc'' (name s)
                                 (nio_str (store s nio1)) vpi1 (nio_str (store s nio2)) vpi2],
                           mapping := (mapping s)(VP port1 vpi1 := None)\<rparr>) \<and>
              mapping (snd (unmap_vp E port1 vpi1 port2 vpi2 s)) (VP port1 vpi1) = None \<and>
              (\<forall>k. k \<noteq> VP port1 vpi1 \<longrightarrow>
                 mapping (snd (unmap_vp E port1 vpi1 port2 vpi2 s)) k = mapping s k) \<and>
              (VP port2 vpi2 \<noteq> VP port1 vpi1 \<longrightarrow>
                 mapping (snd (unmap_vp E port1 vpi1 port2 vpi2 s)) (VP port2 vpi2)
                   = mapping s (VP port2 vpi2)) \<and>
              nios (snd (unmap_vp E port1 vpi1 port2 vpi2 s)) = nios s)
       \<and> (mapping s (VC port1 vpi1 vci1) \<noteq> None \<and>
          send E (sent s) (vcc_cmd ''delete_vcc'' (name s) (nio_str (store s nio1)) vpi1 vci1
                             (nio_str (store s nio2)) vpi2 vci2) = None
          \<longrightarrow> unmap_pvc E port1 vpi1 vci1 port2 vpi2 vci2 s =
                (Inr (), s\<lparr>sent := sent s @ [vcc_cmd ''delete_vcc'' (name s)
                                 (nio_str (store s nio1)) vpi1 vci1
                                 (nio_str (store s nio2)) vpi2 vci2],
                           mapping := (mapping s)(VC port1 vpi1 vci1 := None)\<rparr>) \<and>
              mapping (snd (unmap_pvc E port1 vpi1 vci1 port2 vpi2 vci2 s)) (VC port1 vpi1 vci1)
                = None \<and>
              (\<forall>k. k \<noteq> VC port1 vpi1 vci1 \<longrightarrow>
                 mapping (snd (unmap_pvc E port1 vpi1 vci1 port2 vpi2 vci2 s)) k = mapping s k) \<and>
              (VC port2 vpi2 vci2 \<noteq> VC port1 vpi1 vci1 \<longrightarrow>
                 mapping (snd (unmap_pvc E port1 vpi1 vci1 port2 vpi2 vci2 s)) (VC port2 vpi2 vci2)
                   = mapping s (VC port2 vpi2 vci2)) \<and>
              nios (snd (unmap_pvc E port1 vpi1 vci1 port2 vpi2 vci2 s)) = nios s)"
  using assms
  by (auto simp: unmap_vp_def unmap_pvc_def hypervisor_send_alt)

theorem unmap_removes_exactly_source_key_witness:
  "nios sw1_chained 1 = Some 0 \<and> nios sw1_chained 2 = Some 1 \<and>
   mapping sw1_chained (VP 1 5) \<noteq> None \<and> mapping sw1_chained (VC 1 5 100) \<noteq> None \<and>
   fst (unmap_vp env_ack 1 5 2 7 sw1_chained) = Inr () \<and>
   mapping (snd (unmap_vp env_ack 1 5 2 7 sw1_chained)) (VP 1 5) = None \<and>
   mapping (snd (unmap_vp env_ack 1 5 2 7 sw1_chained)) (VP 2 7) = Some (VP 3 9) \<and>
   nios (snd (unmap_vp env_ack 1 5 2 7 sw1_chained)) = nios sw1_chained \<and>
   fst (unmap_pvc env_ack 1 5 100 2 7 200 sw1_chained) = Inr () \<and>
   mapping (snd (unmap_pvc env_ack 1 5 100 2 7 200 sw1_chained)) (VC 1 5 100) = None \<and>
   mapping (snd (unmap_pvc env_ack 1 5 100 2 7 200 sw1_chained)) (VC 2 7 200) = Some (VC 3 9 300) \<and>
   nios (snd (unmap_pvc env_ack 1 5 100 2 7 200 sw1_chained)) = nios sw1_chained"
proof -
  have a: "nios sw1_chained 1 = Some 0" and b: "nios sw1_chained 2 = Some 1"
    and m: "mapping sw1_chained (VP 1 5) \<noteq> None" "mapping sw1_chained (VC 1 5 100) \<noteq> None"
    and d: "mapping sw1_chained (VP 2 7) = Some (VP 3 9)"
      "mapping sw1_chained (VC 2 7 200) = Some (VC 3 9 300)"
    by (simp_all add: sw1_chained_def sw1_def)
  have c: "send env_ack h x = None" for h x by (simp add: env_ack_def)
  from unmap_removes_exactly_source_key
         [OF a b, where E = env_ack and ?vpi1.0 = 5 and ?vpi2.0 = 7 and ?vci1.0 = 100
            and ?vci2.0 = 200] m d c
  have "fst (unmap_vp env_ack 1 5 2 7 sw1_chained) = Inr () \<and>
        mapping (snd (unmap_vp env_ack 1 5 2 7 sw1_chained)) (VP 1 5) = None \<and>
        mapping (snd (unmap_vp env_ack 1 5 2 7 sw1_chained)) (VP 2 7) = Some (VP 3 9) \<and>
        nios (snd (unmap_vp env_ack 1 5 2 7 sw1_chained)) = nios sw1_chained \<and>
        fst (unmap_pvc env_ack 1 5 100 2 7 200 sw1_chained) = Inr () \<and>
        mapping (snd (unmap_pvc env_ack 1 5 100 2 7 200 sw1_chained)) (VC 1 5 100) = None \<and>
        mapping (snd (unmap_pvc env_ack 1 5 100 2 7 200 sw1_chained)) (VC 2 7 200)
          = Some (VC 3 9 300) \<and>
        nios (snd (unmap_pvc env_ack 1 5 100 2 7 200 sw1_chained)) = nios sw1_chained"
    by simp
  with a b m show ?thesis by simp
qed

subsection \<open>Packet capture\<close>

text \<open>
  C2 as stated does not hold. The guard of \<^verbatim>\<open>start_capture\<close> raises only when the input
  side and the output side both have a filter. On a port whose NIO has a filter on its
  input side alone the call goes on: it binds the capture filter and succeeds.
\<close>

theorem start_capture_binds_over_one_sided_filter:
  "nios sw1_input_filter 3 = Some 2 \<and>
   fst (input_filter (store sw1_input_filter 2)) = Some ''freq_drop'' \<and>
   fst (output_filter (store sw1_input_filter 2)) = None \<and>
   fst (start_capture env_ack 3 ''/tmp/out.pcap'' ''DLT_ATM_RFC1483'' sw1_input_filter) = Inr () \<and>
   nio_calls (snd (start_capture env_ack 3 ''/tmp/out.pcap'' ''DLT_ATM_RFC1483'' sw1_input_filter))
     = [(2, BindFilter ''both'' ''capture''),
        (2, SetupFilter ''both'' ''atm_rfc1483 /tmp/out.pcap'')]"
  by (simp add: start_capture_def lower_default nio_defs nio_invoke_alt sw1_input_filter_def
      sw1_def idle_nio_def env_ack_def ok_bind_def ok_setup_def)

text \<open>
  C2, amended. On an allocated port whose NIO reports a filter on the input side and a
  filter on the output side, \<^verbatim>\<open>start_capture\<close> raises the filter-already-applied error
  ("Port p has already a filter applied") and returns the state it was given: no
  capability of the NIO, \<^verbatim>\<open>bind_filter\<close> included, has been invoked.
\<close>

theorem start_capture_rejects_two_sided_filter:
  assumes "nios s p = Some n"
    "fst (input_filter (store s n)) \<noteq> None" "fst (output_filter (store s n)) \<noteq> None"
  shows "start_capture E p f d s = (Inl (DynamipsError (filter_applied_msg p)), s) \<and>
         nio_calls (snd (start_capture E p f d s)) = nio_calls s"
  using assms by (simp add: start_capture_def Let_def)

theorem start_capture_rejects_two_sided_filter_witness:
  "nios sw1_capturing 3 = Some 2 \<and>
   fst (input_filter (store sw1_capturing 2)) \<noteq> None \<and>
   fst (output_filter (store sw1_capturing 2)) \<noteq> None \<and>
   start_capture env_ack 3 ''/tmp/out.pcap'' ''DLT_ATM_RFC1483'' sw1_capturing =
     (Inl (DynamipsError ''Port 3 has already a filter applied''), sw1_capturing)"
proof -
  have a: "nios sw1_capturing 3 = Some 2"
    and b: "fst (input_filter (store sw1_capturing 2)) \<noteq> None"
    and c: "fst (output_filter (store sw1_capturing 2)) \<noteq> None"
    by (simp_all add: sw1_capturing_def sw1_def)
  have m: "filter_applied_msg 3 = ''Port 3 has already a filter applied''"
    by (simp add: filter_applied_msg_def str_eval)
  from start_capture_rejects_two_sided_filter
         [OF a b c, of env_ack "''/tmp/out.pcap''" "''DLT_ATM_RFC1483''"] a b c m
  show ?thesis by simp
qed

text \<open>
  C7. Whatever \<^verbatim>\<open>start_capture\<close> passes to the NIO's \<^verbatim>\<open>setup_filter\<close> is the tag
  lower-cased, with the four characters \<^verbatim>\<open>dlt_\<close> removed if the lower-cased tag begins
  with them, followed by a space and the output file. When the port is allocated, the
  guard lets the call through and \<^verbatim>\<open>bind_filter\<close> succeeds, the calls made on the NIO are
  exactly that bind and that setup. The default tag \<^verbatim>\<open>DLT_ATM_RFC1483\<close> is configured as
  \<^verbatim>\<open>atm_rfc1483\<close>.
\<close>

theorem start_capture_normalizes_tag:
  "(\<forall>(r, c) \<in> set (drop (length (nio_calls s)) (nio_calls (snd (start_capture E p f d s)))).
      \<forall>dir a. c = SetupFilter dir a \<longrightarrow> a = spec_normalize d @ '' '' @ f) \<and>
   (nios s p = Some n \<and>
    \<not> (fst (input_filter (store s n)) \<noteq> None \<and> fst (output_filter (store s n)) \<noteq> None) \<and>
    fst (bind_filter E (store s n) ''both'' ''capture'') = None
    \<longrightarrow> nio_calls (snd (start_capture E p f d s)) =
          nio_calls s @ [(n, BindFilter ''both'' ''capture''),
                         (n, SetupFilter ''both'' (spec_normalize d @ '' '' @ f))])"
  by (auto simp: start_capture_def spec_normalize_def startswith_dlt Let_def nio_defs
      nio_invoke_alt split: option.splits sum.splits prod.splits)

theorem start_capture_normalizes_tag_witness:
  "nios sw1 3 = Some 2 \<and>
   \<not> (fst (input_filter (store sw1 2)) \<noteq> None \<and> fst (output_filter (store sw1 2)) \<noteq> None) \<and>
   fst (bind_filter env_ack (store sw1 2) ''both'' ''capture'') = None \<and>
   nio_calls (snd (start_capture env_ack 3 ''/tmp/out.pcap'' ''DLT_ATM_RFC1483'' sw1)) =
     [(2, BindFilter ''both'' ''capture''),
      (2, SetupFilter ''both'' ''atm_rfc1483 /tmp/out.pcap'')]"
  using start_capture_normalizes_tag
          [where s = sw1 and p = 3 and n = 2 and E = env_ack and f = "''/tmp/out.pcap''"
             and d = "''DLT_ATM_RFC1483''"]
  by (simp add: spec_normalize_default sw1_def env_ack_def ok_bind_def idle_nio_def)

text \<open>
  C10. \<^verbatim>\<open>start_capture\<close> and \<^verbatim>\<open>stop_capture\<close> leave the port table and the circuit table
  as they were, whether they return or raise, so every port is bound to the same NIO
  object before and after. They also leave the stored name and the channel's log alone,
  and every NIO object other than the one bound to the target port is unchanged.
\<close>

theorem capture_keeps_tables:
  "nios (snd (start_capture E p f d s)) = nios s \<and>
   mapping (snd (start_capture E p f d s)) = mapping s \<and>
   name (snd (start_capture E p f d s)) = name s \<and>
   sent (snd (start_capture E p f d s)) = sent s \<and>
   nios (snd (stop_capture E p s)) = nios s \<and>
   mapping (snd (stop_capture E p s)) = mapping s \<and>
   name (snd (stop_capture E p s)) = name s \<and>
   sent (snd (stop_capture E p s)) = sent s \<and>
   (\<forall>r. nios s p \<noteq> Some r \<longrightarrow>
       store (snd (start_capture E p f d s)) r = store s r \<and>
       store (snd (stop_capture E p s)) r = store s r)"
  by (auto simp: start_capture_def stop_capture_def nio_defs nio_invoke_alt Let_def
      split: option.splits sum.splits prod.splits)

theorem capture_keeps_tables_witness:
  "nios sw1 3 \<noteq> Some 1 \<and>
   nios (snd (start_capture env_ack 3 ''/tmp/out.pcap'' ''DLT_ATM_RFC1483'' sw1)) = nios sw1 \<and>
   mapping (snd (start_capture env_ack 3 ''/tmp/out.pcap'' ''DLT_ATM_RFC1483'' sw1)) = mapping sw1 \<and>
   store (snd (start_capture env_ack 3 ''/tmp/out.pcap'' ''DLT_ATM_RFC1483'' sw1)) 1 = store sw1 1 \<and>
   nios (snd (stop_capture env_ack 3 sw1)) = nios sw1 \<and>
   mapping (snd (stop_capture env_ack 3 sw1)) = mapping sw1 \<and>
   store (snd (stop_capture env_ack 3 sw1)) 1 = store sw1 1"
proof -
  have a: "nios sw1 3 \<noteq> Some 1" by (simp add: sw1_def)
  from capture_keeps_tables
         [where s = sw1 and p = 3 and E = env_ack and f = "''/tmp/out.pcap''"
            and d = "''DLT_ATM_RFC1483''"] a
  show ?thesis by blast
qed

subsection \<open>What the errors say\<close>

text \<open>
  C6 as stated does not hold. Adding a NIO on the occupied port 1 of switch \<^verbatim>\<open>SW1\<close> with
  id \<^verbatim>\<open>7f3c\<close> raises \<^verbatim>\<open>DynamipsError\<close> with the message "Port 1 isn't free", in which
  neither the name nor the id occurs.
\<close>

theorem port_conflict_message_lacks_name_and_id:
  "name sw1 = ''SW1'' \<and> node_id sw1 = ''7f3c'' \<and>
   fst (add_nio 7 1 sw1) = Inl (DynamipsError ''Port 1 isn't free'') \<and>
   \<not> contains ''Port 1 isn't free'' ''SW1'' \<and>
   \<not> contains ''Port 1 isn't free'' ''7f3c''"
  by (simp add: add_nio_def sw1_def not_free_msg_def str_eval)

text \<open>
  C6, amended. The errors the switch raises by its own checks, whatever the channel and
  the NIO capabilities do, are exactly these, each returned with the state unchanged or,
  for the last, after the acknowledged delete command:
  \<^item> \<^verbatim>\<open>add_nio\<close> on a bound port \<open>p\<close>: \<^verbatim>\<open>DynamipsError\<close> "Port p isn't free";
  \<^item> \<^verbatim>\<open>remove_nio\<close>, \<^verbatim>\<open>start_capture\<close>, \<^verbatim>\<open>stop_capture\<close> on an unbound port \<open>p\<close>, and the
    four circuit methods when a port is unbound: \<^verbatim>\<open>DynamipsError\<close> "Port p is not
    allocated", where for the circuit methods \<open>p\<close> is \<open>p1\<close> if that is unbound and
    otherwise \<open>p2\<close>;
  \<^item> \<^verbatim>\<open>start_capture\<close> on a port whose NIO has a filter on both sides:
    \<^verbatim>\<open>DynamipsError\<close> "Port p has already a filter applied";
  \<^item> \<^verbatim>\<open>unmap_vp\<close> and \<^verbatim>\<open>unmap_pvc\<close> with both ports bound, the delete command
    acknowledged and the source key absent: \<^verbatim>\<open>KeyError\<close> carrying the source key.

  Every other error of a method is the exception that the channel or the NIO capability
  raised. Each message is the word "Port", the decimal port number and a fixed phrase:
  the switch's name and id are not inserted into it.
\<close>

theorem errors_identify_port_or_key_only:
  "(nios s p \<noteq> None \<longrightarrow>
      add_nio n p s = (Inl (DynamipsError (''Port '' @ str_int p @ '' isn't free'')), s)) \<and>
   (nios s p = None \<longrightarrow>
      remove_nio p s = (Inl (DynamipsError (''Port '' @ str_int p @ '' is not allocated'')), s) \<and>
      start_capture E p f d s
        = (Inl (DynamipsError (''Port '' @ str_int p @ '' is not allocated'')), s) \<and>
      stop_capture E p s
        = (Inl (DynamipsError (''Port '' @ str_int p @ '' is not allocated'')), s)) \<and>
   (nios s p1 = None \<or> nios s p2 = None \<longrightarrow>
      (let e = DynamipsError (''Port '' @ str_int (if nios s p1 = None then p1 else p2)
                                @ '' is not allocated'')
       in map_vp E p1 v1 p2 v2 s = (Inl e, s) \<and>
          unmap_vp E p1 v1 p2 v2 s = (Inl e, s) \<and>
          map_pvc E p1 v1 c1 p2 v2 c2 s = (Inl e, s) \<and>
          unmap_pvc E p1 v1 c1 p2 v2 c2 s = (Inl e, s))) \<and>
   (nios s p = Some r \<and> fst (input_filter (store s r)) \<noteq> None
      \<and> fst (output_filter (store s r)) \<noteq> None \<longrightarrow>
      start_capture E p f d s
        = (Inl (DynamipsError (''Port '' @ str_int p @ '' has already a filter applied'')), s)) \<and>
   (nios s p1 = Some r1 \<and> nios s p2 = Some r2 \<longrightarrow>
      (mapping s (VP p1 v1) = None \<and>
       send E (sent s) (vpc_cmd ''delete_vpc'' (name s) (nio_str (store s r1)) v1
                          (nio_str (store s r2)) v2) = None
         \<longrightarrow> fst (unmap_vp E p1 v1 p2 v2 s) = Inl (KeyError (VP p1 v1))) \<and>
      (mapping s (VC p1 v1 c1) = None \<and>
       send E (sent s) (vcc_cmd ''delete_vcc'' (name s) (nio_str (store s r1)) v1 c1
                          (nio_str (store s r2)) v2 c2) = None
         \<longrightarrow> fst (unmap_pvc E p1 v1 c1 p2 v2 c2 s) = Inl (KeyError (VC p1 v1 c1)))) \<and>
   (add_nio n p s = (Inl x, s') \<longrightarrow> nios s p \<noteq> None) \<and>
   (remove_nio p s = (Inl x, s') \<longrightarrow> nios s p = None) \<and>
   (map_vp E p1 v1 p2 v2 s = (Inl x, s') \<longrightarrow>
      nios s p1 = None \<or> nios s p2 = None \<or>
      (\<exists>r1 r2. nios s p1 = Some r1 \<and> nios s p2 = Some r2 \<and>
         send E (sent s) (vpc_cmd ''create_vpc'' (name s) (nio_str (store s r1)) v1
                            (nio_str (store s r2)) v2) = Some x)) \<and>
   (map_pvc E p1 v1 c1 p2 v2 c2 s = (Inl x, s') \<longrightarrow>
      nios s p1 = None \<or> nios s p2 = None \<or>
      (\<exists>r1 r2. nios s p1 = Some r1 \<and> nios s p2 = Some r2 \<and>
         send E (sent s) (vcc_cmd ''create_vcc'' (name s) (nio_str (store s r1)) v1 c1
                            (nio_str (store s r2)) v2 c2) = Some x)) \<and>
   (unmap_vp E p1 v1 p2 v2 s = (Inl x, s') \<longrightarrow>
      nios s p1 = None \<or> nios s p2 = None \<or>
      (\<exists>r1 r2. nios s p1 = Some r1 \<and> nios s p2 = Some r2 \<and>
         (case send E (sent s) (vpc_cmd ''delete_vpc'' (name s) (nio_str (store s r1)) v1
                                  (nio_str (store s r2)) v2) of
            Some y \<Rightarrow> x = y
          | None \<Rightarrow> mapping s (VP p1 v1) = None))) \<and>
   (unmap_pvc E p1 v1 c1 p2 v2 c2 s = (Inl x, s') \<longrightarrow>
      nios s p1 = None \<or> nios s p2 = None \<or>
      (\<exists>r1 r2. nios s p1 = Some r1 \<and> nios s p2 = Some r2 \<and>
         (case send E (sent s) (vcc_cmd ''delete_vcc'' (name s) (nio_str (store s r1)) v1 c1
                                  (nio_str (store s r2)) v2 c2) of
            Some y \<Rightarrow> x = y
          | None \<Rightarrow> mapping s (VC p1 v1 c1) = None))) \<and>
   (start_capture E p f d s = (Inl x, s') \<longrightarrow>
      nios s p = None \<or>
      (\<exists>r. nios s p = Some r \<and>
         ((fst (input_filter (store s r)) \<noteq> None \<and> fst (output_filter (store s r)) \<noteq> None) \<or>
          fst (bind_filter E (store s r) ''both'' ''capture'') = Some x \<or>
          fst (setup_filter E (snd (bind_filter E (store s r) ''both'' ''capture'')) ''both''
                 (spec_normalize d @ '' '' @ f)) = Some x))) \<and>
   (stop_capture E p s = (Inl x, s') \<longrightarrow>
      nios s p = None \<or>
      (\<exists>r. nios s p = Some r \<and> fst (unbind_filter E (store s r) ''both'') = Some x))"
proof -
  have 1: "nios s p \<noteq> None \<longrightarrow>
      add_nio n p s = (Inl (DynamipsError (''Port '' @ str_int p @ '' isn't free'')), s)"
    by (auto simp: add_nio_def not_free_msg_def)
  have 2: "nios s p = None \<longrightarrow>
      remove_nio p s = (Inl (DynamipsError (''Port '' @ str_int p @ '' is not allocated'')), s) \<and>
      start_capture E p f d s
        = (Inl (DynamipsError (''Port '' @ str_int p @ '' is not allocated'')), s) \<and>
      stop_capture E p s
        = (Inl (DynamipsError (''Port '' @ str_int p @ '' is not allocated'')), s)"
    by (simp add: remove_nio_def start_capture_def stop_capture_def not_allocated_msg_def)
  have 3: "nios s p1 = None \<or> nios s p2 = None \<longrightarrow>
      (let e = DynamipsError (''Port '' @ str_int (if nios s p1 = None then p1 else p2)
                                @ '' is not allocated'')
       in map_vp E p1 v1 p2 v2 s = (Inl e, s) \<and>
          unmap_vp E p1 v1 p2 v2 s = (Inl e, s) \<and>
          map_pvc E p1 v1 c1 p2 v2 c2 s = (Inl e, s) \<and>
          unmap_pvc E p1 v1 c1 p2 v2 c2 s = (Inl e, s))"
    by (auto simp: map_vp_def unmap_vp_def map_pvc_def unmap_pvc_def not_allocated_msg_def
        Let_def split: option.splits)
  have 4: "nios s p = Some r \<and> fst (input_filter (store s r)) \<noteq> None
      \<and> fst (output_filter (store s r)) \<noteq> None \<longrightarrow>
      start_capture E p f d s
        = (Inl (DynamipsError (''Port '' @ str_int p @ '' has already a filter applied'')), s)"
    by (simp add: start_capture_def Let_def filter_applied_msg_def)
  have 5: "nios s p1 = Some r1 \<and> nios s p2 = Some r2 \<longrightarrow>
      (mapping s (VP p1 v1) = None \<and>
       send E (sent s) (vpc_cmd ''delete_vpc'' (name s) (nio_str (store s r1)) v1
                          (nio_str (store s r2)) v2) = None
         \<longrightarrow> fst (unmap_vp E p1 v1 p2 v2 s) = Inl (KeyError (VP p1 v1))) \<and>
      (mapping s (VC p1 v1 c1) = None \<and>
       send E (sent s) (vcc_cmd ''delete_vcc'' (name s) (nio_str (store s r1)) v1 c1
                          (nio_str (store s r2)) v2 c2) = None
         \<longrightarrow> fst (unmap_pvc E p1 v1 c1 p2 v2 c2 s) = Inl (KeyError (VC p1 v1 c1)))"
    by (auto simp: unmap_vp_def unmap_pvc_def hypervisor_send_alt)
  have 6: "add_nio n p s = (Inl x, s') \<longrightarrow> nios s p \<noteq> None"
    by (auto simp: add_nio_def split: if_splits)
  have 7: "remove_nio p s = (Inl x, s') \<longrightarrow> nios s p = None"
    by (auto simp: remove_nio_def split: option.splits)
  have 8: "map_vp E p1 v1 p2 v2 s = (Inl x, s') \<longrightarrow>
      nios s p1 = None \<or> nios s p2 = None \<or>
      (\<exists>r1 r2. nios s p1 = Some r1 \<and> nios s p2 = Some r2 \<and>
         send E (sent s) (vpc_cmd ''create_vpc'' (name s) (nio_str (store s r1)) v1
                            (nio_str (store s r2)) v2) = Some x)"
    by (auto simp: map_vp_def hypervisor_send_alt split: option.splits)
  have 9: "map_pvc E p1 v1 c1 p2 v2 c2 s = (Inl x, s') \<longrightarrow>
      nios s p1 = None \<or> nios s p2 = None \<or>
      (\<exists>r1 r2. nios s p1 = Some r1 \<and> nios s p2 = Some r2 \<and>
         send E (sent s) (vcc_cmd ''create_vcc'' (name s) (nio_str (store s r1)) v1 c1
                            (nio_str (store s r2)) v2 c2) = Some x)"
    by (auto simp: map_pvc_def hypervisor_send_alt split: option.splits)
  have 10: "unmap_vp E p1 v1 p2 v2 s = (Inl x, s') \<longrightarrow>
      nios s p1 = None \<or> nios s p2 = None \<or>
      (\<exists>r1 r2. nios s p1 = Some r1 \<and> nios s p2 = Some r2 \<and>
         (case send E (sent s) (vpc_cmd ''delete_vpc'' (name s) (nio_str (store s r1)) v1
                                  (nio_str (store s r2)) v2) of
            Some y \<Rightarrow> x = y
          | None \<Rightarrow> mapping s (VP p1 v1) = None))"
    by (auto simp: unmap_vp_def hypervisor_send_alt split: option.splits if_splits)
  have 11: "unmap_pvc E p1 v1 c1 p2 v2 c2 s = (Inl x, s') \<longrightarrow>
      nios s p1 = None \<or> nios s p2 = None \<or>
      (\<exists>r1 r2. nios s p1 = Some r1 \<and> nios s p2 = Some r2 \<and>
         (case send E (sent s) (vcc_cmd ''delete_vcc'' (name s) (nio_str (store s r1)) v1 c1
                                  (nio_str (store s r2)) v2 c2) of
            Some y \<Rightarrow> x = y
          | None \<Rightarrow> mapping s (VC p1 v1 c1) = None))"
    by (auto simp: unmap_pvc_def hypervisor_send_alt split: option.splits if_splits)
  have 12: "start_capture E p f d s = (Inl x, s') \<longrightarrow>
      nios s p = None \<or>
      (\<exists>r. nios s p = Some r \<and>
         ((fst (input_filter (store s r)) \<noteq> None \<and> fst (output_filter (store s r)) \<noteq> None) \<or>
          fst (bind_filter E (store s r) ''both'' ''capture'') = Some x \<or>
          fst (setup_filter E (snd (bind_filter E (store s r) ''both'' ''capture'')) ''both''
                 (spec_normalize d @ '' '' @ f)) = Some x))"
    by (auto simp: start_capture_def spec_normalize_def startswith_dlt Let_def nio_defs
        nio_invoke_alt split: option.splits if_splits)
  have 13: "stop_capture E p s = (Inl x, s') \<longrightarrow>
      nios s p = None \<or>
      (\<exists>r. nios s p = Some r \<and> fst (unbind_filter E (store s r) ''both'') = Some x)"
    by (auto simp: stop_capture_def nio_defs nio_invoke_alt split: option.splits)
  show ?thesis
    using 1 2 3 4 5 6 7 8 9 10 11 12 13 by (intro conjI) assumption+
qed

theorem errors_identify_port_or_key_only_witness:
  "nios sw1 1 \<noteq> None \<and> nios sw1 2 \<noteq> None \<and> nios sw1 8 = None \<and> nios sw1 9 = None \<and>
   add_nio 7 1 sw1 = (Inl (DynamipsError ''Port 1 isn't free''), sw1) \<and>
   remove_nio 9 sw1 = (Inl (DynamipsError ''Port 9 is not allocated''), sw1) \<and>
   stop_capture env_fail 9 sw1 = (Inl (DynamipsError ''Port 9 is not allocated''), sw1) \<and>
   unmap_vp env_fail 8 5 9 7 sw1 = (Inl (DynamipsError ''Port 8 is not allocated''), sw1) \<and>
   unmap_pvc env_fail 1 5 100 9 7 200 sw1
     = (Inl (DynamipsError ''Port 9 is not allocated''), sw1) \<and>
   nios sw1_capturing 3 = Some 2 \<and>
   fst (input_filter (store sw1_capturing 2)) \<noteq> None \<and>
   fst (output_filter (store sw1_capturing 2)) \<noteq> None \<and>
   start_capture env_fail 3 ''/tmp/out.pcap'' ''DLT_ATM_RFC1483'' sw1_capturing
     = (Inl (DynamipsError ''Port 3 has already a filter applied''), sw1_capturing) \<and>
   mapping sw1 (VP 1 5) = None \<and>
   fst (unmap_vp env_ack 1 5 2 7 sw1) = Inl (KeyError (VP 1 5))"
proof -
  have b: "nios sw1 1 \<noteq> None" "nios sw1 2 \<noteq> None" "nios sw1 8 = None" "nios sw1 9 = None"
    and r: "nios sw1 1 = Some 0" "nios sw1 2 = Some 1"
    and k: "mapping sw1 (VP 1 5) = None"
    by (simp_all add: sw1_def)
  have c: "nios sw1_capturing 3 = Some 2"
    "fst (input_filter (store sw1_capturing 2)) \<noteq> None"
    "fst (output_filter (store sw1_capturing 2)) \<noteq> None"
    by (simp_all add: sw1_capturing_def sw1_def)
  have ack: "send env_ack h x = None" for h x by (simp add: env_ack_def)
  have n: "str_int 1 = ''1''" "str_int 3 = ''3''" "str_int 8 = ''8''" "str_int 9 = ''9''"
    by (simp_all add: str_eval)
  have "add_nio 7 1 sw1 = (Inl (DynamipsError ''Port 1 isn't free''), sw1)"
    using errors_identify_port_or_key_only [where s = sw1 and p = 1 and n = 7] b n by simp
  moreover have "remove_nio 9 sw1 = (Inl (DynamipsError ''Port 9 is not allocated''), sw1) \<and>
      stop_capture env_fail 9 sw1 = (Inl (DynamipsError ''Port 9 is not allocated''), sw1)"
    using errors_identify_port_or_key_only [where s = sw1 and p = 9 and E = env_fail] b n
    by simp
  moreover have "unmap_vp env_fail 8 5 9 7 sw1
      = (Inl (DynamipsError ''Port 8 is not allocated''), sw1)"
    using errors_identify_port_or_key_only
            [where s = sw1 and ?p1.0 = 8 and ?p2.0 = 9 and E = env_fail and ?v1.0 = 5
               and ?v2.0 = 7] b n
    by (simp add: Let_def)
  moreover have "unmap_pvc env_fail 1 5 100 9 7 200 sw1
      = (Inl (DynamipsError ''Port 9 is not allocated''), sw1)"
    using errors_identify_port_or_key_only
            [where s = sw1 and ?p1.0 = 1 and ?p2.0 = 9 and E = env_fail and ?v1.0 = 5
               and ?v2.0 = 7 and ?c1.0 = 100 and ?c2.0 = 200] b n
    by (simp add: Let_def)
  moreover have "start_capture env_fail 3 ''/tmp/out.pcap'' ''DLT_ATM_RFC1483'' sw1_capturing
      = (Inl (DynamipsError ''Port 3 has already a filter applied''), sw1_capturing)"
    using errors_identify_port_or_key_only
            [where s = sw1_capturing and p = 3 and r = 2 and E = env_fail
               and f = "''/tmp/out.pcap''" and d = "''DLT_ATM_RFC1483''"] c n
    by simp
  moreover have "fst (unmap_vp env_ack 1 5 2 7 sw1) = Inl (KeyError (VP 1 5))"
    using errors_identify_port_or_key_only
            [where s = sw1 and ?p1.0 = 1 and ?p2.0 = 2 and ?r1.0 = 0 and ?r2.0 = 1
               and E = env_ack and ?v1.0 = 5 and ?v2.0 = 7] r k ack
    by simp
  ultimately show ?thesis using b c k by simp
qed

end
